theory Spec2Isabelle
  imports Main
begin

section \<open>Data model\<close>

text \<open>
  The stash layer of word-pouch pairs an in-memory state object with tables of an
  embedded database. Entities are JavaScript objects: a numeric \<open>id\<close> plus named
  properties. A property that is not set reads as \<open>Undefined\<close>. Numbers that occur
  (ids, journal ids) are integers. Logging calls have no effect on the state and are
  left out.
\<close>

type_synonym key = string

datatype val = Undefined | Num int | Str string | Bool bool

type_synonym fields = "key \<Rightarrow> val"

text \<open>\<open>DBEntry\<close>: an object with an \<open>id\<close>; \<open>DBCommonEntry\<close> also has the property
  \<open>journalId\<close>, read here as \<open>flds e ''journalId''\<close>.\<close>

record entry =
  id_entry :: int
  flds :: fields

text \<open>\<open>Journal\<close> (the active journal is a \<open>Journal\<close> or \<open>null\<close>).\<close>

record journal =
  id_journal :: int
  name :: string

text \<open>A row of the relationship table \<open>db.sentencesInResources\<close>.\<close>

record sentence_in_resource =
  sentenceId :: int
  resourceId :: int

datatype error =
    EntryAlreadyExists int
  | ActiveJournalNotSet
  | EntryNotValid int
  | SentenceNotValid int
  | CannotCreateSentences

datatype UpdateMode = Replace | Add | Remove

text \<open>A result of type \<open>void | 0\<close>.\<close>

datatype void_or_0 = Void | Zero

text \<open>An argument of type \<open>T | T[]\<close>.\<close>

datatype 'a one_or_many = One 'a | Many "'a list"

text \<open>Either a literal value or a function of the loaded entry
  (\<open>S | ((entry: K) => S)\<close>).\<close>

datatype payload = Value val | Deriver "entry \<Rightarrow> val"

text \<open>
  Everything a module of the stash reads or writes:
  \<^item> \<open>all\<close>, \<open>selectedIds\<close>: the module's state object (\<open>CommonEntryStashState\<close>);
  \<^item> \<open>table\<close>: the module's table, keyed by the primary key \<open>id\<close> (a row is the
    remaining properties), with \<open>tableNextId\<close> the key generator of \<open>++id\<close>;
  \<^item> \<open>sentencesInResources\<close>: the relationship table;
  \<^item> \<open>resources_selectedIds\<close>: \<open>$stash.resources.selectedIds\<close>;
  \<^item> \<open>journals_active\<close>: \<open>$stash.journals.active\<close>.
  A call returns its result, or the error it throws, together with the stash as it
  is when the call returns or throws.
\<close>

record stash =
  all :: "int \<rightharpoonup> entry"
  selectedIds :: "int list"
  table :: "int \<rightharpoonup> fields"
  tableNextId :: int
  sentencesInResources :: "sentence_in_resource list"
  resources_selectedIds :: "int list"
  journals_active :: "journal option"

type_synonym 'a outcome = "(error + 'a) \<times> stash"

section \<open>Helpers of \<open>@/util\<close> and \<open>@/api/db\<close>\<close>

text \<open>Modelled from the spec: \<open>wrapInArray\<close> of \<open>@/util\<close> is not among the sources;
  a single value becomes a one-element list, a list stays as it is.\<close>

fun wrapInArray :: "'a one_or_many \<Rightarrow> 'a list" where
  "wrapInArray (One x) = [x]"
| "wrapInArray (Many xs) = xs"

text \<open>Modelled from the spec: the step of Add and of the deduplication, appending
  only the ids that are not already present, in the order given.\<close>

fun appendNew :: "int list \<Rightarrow> int list \<Rightarrow> int list" where
  "appendNew acc [] = acc"
| "appendNew acc (x # xs) = appendNew (if x \<in> set acc then acc else acc @ [x]) xs"

text \<open>Modelled from the spec: \<open>updateArrayWithValues\<close> of \<open>@/util\<close> is not among the
  sources. Replace discards the old list and uses the deduplicated input; Add keeps
  the existing order and appends only ids not already present; Remove filters out the
  given ids.\<close>

fun updateArrayWithValues :: "int list \<Rightarrow> int list \<Rightarrow> UpdateMode \<Rightarrow> int list" where
  "updateArrayWithValues cur vs Replace = appendNew [] vs"
| "updateArrayWithValues cur vs Add = appendNew cur vs"
| "updateArrayWithValues cur vs Remove = filter (\<lambda>x. x \<notin> set vs) cur"

text \<open>Modelled from the spec: \<open>areArraysEqual\<close> of \<open>@/util\<close> is not among the sources;
  two lists are equal when they hold the same ids in the same order.\<close>

definition areArraysEqual :: "int list \<Rightarrow> int list \<Rightarrow> bool" where
  "areArraysEqual xs ys = (xs = ys)"

section \<open>\<open>EntryStash\<close> (\<open>src/stash/common.ts\<close>)\<close>

definition get :: "stash \<Rightarrow> int \<Rightarrow> entry option" where
  "get s i = all s i"

text \<open>\<open>addToAll\<close> throws when an entry with the id is loaded, and stores the entry
  otherwise.\<close>

definition addToAll :: "stash \<Rightarrow> entry \<Rightarrow> unit outcome" where
  "addToAll s v =
     (case all s (id_entry v) of
        Some _ \<Rightarrow> (Inl (EntryAlreadyExists (id_entry v)), s)
      | None \<Rightarrow> (Inr (), s\<lparr>all := (all s)(id_entry v \<mapsto> v)\<rparr>))"

section \<open>\<open>StashModule\<close> (the second stash module class)\<close>

text \<open>The class \<open>StashModule\<close> keeps the same state and table; its \<open>get\<close> reads the
  loaded mapping as \<open>EntryStash.get\<close> does. \<open>StashModule.addToAll\<close> logs and returns 0
  when the entry is loaded, and replaces the mapping by a copy with the entry added
  otherwise.\<close>

definition StashModule_addToAll :: "stash \<Rightarrow> entry \<Rightarrow> void_or_0 outcome" where
  "StashModule_addToAll s v =
     (case all s (id_entry v) of
        Some _ \<Rightarrow> (Inr Zero, s)
      | None \<Rightarrow> (Inr Void, s\<lparr>all := (all s)(id_entry v \<mapsto> v)\<rparr>))"

section \<open>\<open>CommonEntryStash\<close> (\<open>src/stash/common.ts\<close>)\<close>

definition activeJournal :: "stash \<Rightarrow> journal option" where
  "activeJournal s = journals_active s"

text \<open>\<open>isValid\<close> throws without an active journal; otherwise the id is valid when it
  is loaded and its \<open>journalId\<close> is the active journal's id.\<close>

definition isValid :: "stash \<Rightarrow> int \<Rightarrow> error + bool" where
  "isValid s i =
     (case activeJournal s of
        None \<Rightarrow> Inl ActiveJournalNotSet
      | Some j \<Rightarrow>
          Inr (case get s i of
                 None \<Rightarrow> False
               | Some e \<Rightarrow> flds e ''journalId'' = Num (id_journal j)))"

text \<open>The \<open>forEach\<close> of \<open>setSelectedIds\<close>: the first id that is not valid throws.\<close>

fun checkValid :: "stash \<Rightarrow> int list \<Rightarrow> error option" where
  "checkValid s [] = None"
| "checkValid s (i # is) =
     (case isValid s i of
        Inl e \<Rightarrow> Some e
      | Inr False \<Rightarrow> Some (EntryNotValid i)
      | Inr True \<Rightarrow> checkValid s is)"

definition setSelectedIds :: "stash \<Rightarrow> int one_or_many \<Rightarrow> UpdateMode \<Rightarrow> void_or_0 outcome" where
  "setSelectedIds s entryIds updateMode =
     (let entryIdList = wrapInArray entryIds in
      case checkValid s entryIdList of
        Some e \<Rightarrow> (Inl e, s)
      | None \<Rightarrow>
          (let newSelectedEntryIds = updateArrayWithValues (selectedIds s) entryIdList updateMode in
           if areArraysEqual (selectedIds s) newSelectedEntryIds then (Inr Zero, s)
           else (Inr Void, s\<lparr>selectedIds := newSelectedEntryIds\<rparr>)))"

section \<open>The persistence layer\<close>

text \<open>Modelled from the spec: the persistence layer (Dexie) is not among the sources.
  \<open>table.where({ id }).modify(mutator)\<close> applies the mutator in place to the row
  matching \<open>id\<close>. The spec gives \<open>modify\<close> no count, so the count is the library's: a
  row whose mutator returns \<open>false\<close> is left alone and not counted; every other
  matching row is put back as the mutator left it and counted, whether the mutator
  changed it or not. The mutator is a closure over the module, so the stash is
  threaded through it; it yields its return value, the row and the stash.\<close>

definition modify ::
  "stash \<Rightarrow> int \<Rightarrow> (entry \<Rightarrow> stash \<Rightarrow> val \<times> entry \<times> stash) \<Rightarrow> nat \<times> stash" where
  "modify s i mutator =
     (case table s i of
        None \<Rightarrow> (0, s)
      | Some row \<Rightarrow>
          (case mutator \<lparr>id_entry = i, flds = row\<rparr> s of
             (returned, dbEntry, s') \<Rightarrow>
               if returned = Bool False then (0, s')
               else (1, s'\<lparr>table := (table s')(i \<mapsto> flds dbEntry)\<rparr>)))"

text \<open>Modelled from the spec: \<open>table.update(id, { [key]: value })\<close> returns the count
  of rows affected: 0 when no row has the id or the value is already set (as the
  comment at the call says), 1 otherwise.\<close>

definition tableUpdate :: "stash \<Rightarrow> int \<Rightarrow> key \<Rightarrow> val \<Rightarrow> nat \<times> stash" where
  "tableUpdate s i k v =
     (case table s i of
        None \<Rightarrow> (0, s)
      | Some row \<Rightarrow>
          if row k = v then (0, s)
          else (1, s\<lparr>table := (table s)(i \<mapsto> row(k := v))\<rparr>))"

text \<open>Modelled from the spec: \<open>bulkGet(ids)\<close> returns an ordered list, a missing row
  as a not-found marker.\<close>

definition bulkGet :: "(int \<rightharpoonup> fields) \<Rightarrow> int list \<Rightarrow> entry option list" where
  "bulkGet tbl ids = map (\<lambda>i. map_option (\<lambda>row. \<lparr>id_entry = i, flds = row\<rparr>) (tbl i)) ids"

text \<open>Modelled from the spec: \<open>bulkAdd(entities, { allKeys: true })\<close> stores each entity
  under the next key of the key generator and returns the assigned ids.\<close>

fun bulkAdd :: "fields list \<Rightarrow> (int \<rightharpoonup> fields) \<Rightarrow> int \<Rightarrow> int list \<times> (int \<rightharpoonup> fields) \<times> int" where
  "bulkAdd [] tbl n = ([], tbl, n)"
| "bulkAdd (r # rs) tbl n =
     (case bulkAdd rs (tbl(n \<mapsto> r)) (n + 1) of
        (ks, tbl', n') \<Rightarrow> (n # ks, tbl', n'))"

text \<open>Modelled from the spec: \<open>bulkDelete(ids)\<close> removes the rows with the ids.\<close>

definition bulkDelete :: "(int \<rightharpoonup> fields) \<Rightarrow> int list \<Rightarrow> (int \<rightharpoonup> fields)" where
  "bulkDelete tbl ids = (\<lambda>i. if i \<in> set ids then None else tbl i)"

text \<open>Modelled from the spec: \<open>isValidDBCommonEntry\<close> of \<open>@/api/db\<close> is not among the
  sources; it requires both that the row exists and that its \<open>journalId\<close> is the
  given one.\<close>

definition isValidDBCommonEntry :: "(int \<rightharpoonup> fields) \<Rightarrow> int \<Rightarrow> int \<Rightarrow> bool" where
  "isValidDBCommonEntry tbl i journalId =
     (case tbl i of None \<Rightarrow> False | Some row \<Rightarrow> row ''journalId'' = Num journalId)"

text \<open>Modelled from the spec: \<open>getResourceSentenceIds\<close> of \<open>@/api/db\<close> is not among
  the sources; it resolves the ids of the children of a parent through the
  relationship table.\<close>

definition getResourceSentenceIds :: "stash \<Rightarrow> int \<Rightarrow> int list" where
  "getResourceSentenceIds s rid =
     map sentenceId (filter (\<lambda>r. resourceId r = rid) (sentencesInResources s))"

text \<open>Modelled from the spec: \<open>reduceArrayToObject\<close> of \<open>@/util\<close> is not among the
  sources; the loaded rows become a mapping from id to entry.\<close>

definition reduceArrayToObject :: "entry option list \<Rightarrow> (int \<rightharpoonup> entry)" where
  "reduceArrayToObject es =
     foldl (\<lambda>m e. case e of None \<Rightarrow> m | Some v \<Rightarrow> m(id_entry v \<mapsto> v)) Map.empty es"

text \<open>Modelled from the spec: \<open>intersectArrays\<close> of \<open>@/util\<close> is not among the
  sources; the previous selection is intersected with the loaded id set.\<close>

definition intersectArrays :: "int list \<Rightarrow> int set \<Rightarrow> int list" where
  "intersectArrays xs ys = filter (\<lambda>x. x \<in> ys) xs"

text \<open>Modelled from the spec: the class \<open>Sentence\<close> of \<open>@/api/db\<close> is not among the
  sources; \<open>new Sentence(text, journalId)\<close> is a row with these two properties.\<close>

definition Sentence :: "string \<Rightarrow> int \<Rightarrow> fields" where
  "Sentence text journalId = (\<lambda>_. Undefined)(''text'' := Str text, ''journalId'' := Num journalId)"

text \<open>The result of an \<open>async\<close> function is a promise: it never throws at the call,
  an error inside rejects the promise.\<close>

datatype 'a promise = Resolved 'a | Rejected error

text \<open>A promise is an object, and every object is truthy.\<close>

definition truthy :: "'a promise \<Rightarrow> bool" where
  "truthy p = True"

section \<open>\<open>updateStateAndDb\<close>\<close>

text \<open>The mutator that \<open>EntryStash.updateStateAndDb\<close> hands to \<open>modify\<close>: it returns
  early when the entry is not loaded or the row already has the value, and otherwise
  sets the property of the row and of the loaded entry. On each of its three paths
  it returns \<open>undefined\<close> (a bare \<open>return\<close>, the result of the logging call, the end
  of the body), never \<open>false\<close>.\<close>

definition updateStateAndDb_mutator ::
  "key \<Rightarrow> (entry \<Rightarrow> val) \<Rightarrow> entry \<Rightarrow> stash \<Rightarrow> val \<times> entry \<times> stash" where
  "updateStateAndDb_mutator k getValue dbEntry s =
     (case get s (id_entry dbEntry) of
        None \<Rightarrow> (Undefined, dbEntry, s)
      | Some stateEntry \<Rightarrow>
          (let value = getValue stateEntry in
           if flds dbEntry k = value then (Undefined, dbEntry, s)
           else (Undefined,
                 dbEntry\<lparr>flds := (flds dbEntry)(k := value)\<rparr>,
                 s\<lparr>all := (all s)(id_entry dbEntry \<mapsto>
                        stateEntry\<lparr>flds := (flds stateEntry)(k := value)\<rparr>)\<rparr>)))"

definition updateStateAndDb :: "stash \<Rightarrow> int \<Rightarrow> key \<Rightarrow> payload \<Rightarrow> nat outcome" where
  "updateStateAndDb s i k p =
     (let getValue = (case p of Deriver f \<Rightarrow> f | Value v \<Rightarrow> (\<lambda>_. v)) in
      case modify s i (updateStateAndDb_mutator k getValue) of
        (n, s') \<Rightarrow> (Inr n, s'))"

text \<open>\<open>StashModule.updateStateAndDb\<close> sets the property of the loaded entry first and
  updates the table afterwards.\<close>

definition StashModule_updateStateAndDb :: "stash \<Rightarrow> int \<Rightarrow> key \<Rightarrow> val \<Rightarrow> void_or_0 outcome" where
  "StashModule_updateStateAndDb s i k v =
     (case get s i of
        None \<Rightarrow> (Inr Zero, s)
      | Some e \<Rightarrow>
          if flds e k = v then (Inr Zero, s)
          else (case tableUpdate (s\<lparr>all := (all s)(i \<mapsto> e\<lparr>flds := (flds e)(k := v)\<rparr>)\<rparr>) i k v of
                  (result, s') \<Rightarrow> if result = 0 then (Inr Zero, s') else (Inr Void, s')))"

section \<open>\<open>SentencesModule\<close>\<close>

definition isValidInDb :: "stash \<Rightarrow> int \<Rightarrow> bool promise" where
  "isValidInDb s i =
     (case activeJournal s of
        None \<Rightarrow> Rejected ActiveJournalNotSet
      | Some j \<Rightarrow> Resolved (isValidDBCommonEntry (table s) i (id_journal j)))"

text \<open>The ids of the loaded mapping. The order of \<open>Object.keys\<close> plays no role where
  they are used, so they are the set of keys.\<close>

definition allIds :: "stash \<Rightarrow> int set" where
  "allIds s = dom (all s)"

text \<open>\<open>fetchResourceSentences\<close> takes the first selected resource with \<open>shift()\<close>, which
  removes it from the array; \<open>undefined\<close> (an empty array) and 0 are falsy. The final
  \<open>setSelectedIds\<close> is not awaited: what it throws is lost.\<close>

definition fetchResourceSentences :: "stash \<Rightarrow> unit outcome" where
  "fetchResourceSentences s =
     (case activeJournal s of
        None \<Rightarrow> (Inl ActiveJournalNotSet, s)
      | Some _ \<Rightarrow>
          (case resources_selectedIds s of
             [] \<Rightarrow> (Inr (), s)
           | selectedResourceId # rest \<Rightarrow>
               (let s1 = s\<lparr>resources_selectedIds := rest\<rparr> in
                if selectedResourceId = 0 then (Inr (), s1)
                else
                  (let sentenceIds = getResourceSentenceIds s1 selectedResourceId;
                       sentences = bulkGet (table s1) sentenceIds;
                       s2 = s1\<lparr>all := reduceArrayToObject sentences\<rparr>
                   in (Inr (),
                       snd (setSelectedIds s2
                              (Many (intersectArrays (selectedIds s2) (allIds s2))) Replace))))))"

text \<open>\<open>new\<close>: the transaction adds one \<open>Sentence\<close> per text and reads the rows back;
  an error inside the transaction rolls it back.\<close>

definition new :: "stash \<Rightarrow> string one_or_many \<Rightarrow> int list outcome" where
  "new s texts =
     (case activeJournal s of
        None \<Rightarrow> (Inl ActiveJournalNotSet, s)
      | Some j \<Rightarrow>
          (let activeJournalId = id_journal j in
           if activeJournalId = 0 then (Inl ActiveJournalNotSet, s)
           else
             (let textList = wrapInArray texts in
              case bulkAdd (map (\<lambda>text. Sentence text activeJournalId) textList)
                     (table s) (tableNextId s) of
                (newSentenceIds, tbl, nxt) \<Rightarrow>
                  (let newSentences = bulkGet tbl newSentenceIds in
                   if length newSentences \<noteq> length textList
                   then (Inl CannotCreateSentences, s)
                   else (Inr newSentenceIds, s\<lparr>table := tbl, tableNextId := nxt\<rparr>)))))"

text \<open>The \<open>forEach\<close> of \<open>delete\<close>: \<open>isValidInDb\<close> is called without \<open>await\<close>, so the
  guard negates the promise itself.\<close>

fun checkValidInDb :: "stash \<Rightarrow> int list \<Rightarrow> error option" where
  "checkValidInDb s [] = None"
| "checkValidInDb s (i # is) =
     (if \<not> truthy (isValidInDb s i) then Some (SentenceNotValid i)
      else checkValidInDb s is)"

text \<open>The transaction of \<open>delete\<close>: the rows of the sentences and the rows of the
  relationship table that refer to them.\<close>

definition delete_transaction :: "stash \<Rightarrow> int list \<Rightarrow> stash" where
  "delete_transaction s sentenceIdList =
     s\<lparr>table := bulkDelete (table s) sentenceIdList,
       sentencesInResources :=
         filter (\<lambda>r. sentenceId r \<notin> set sentenceIdList) (sentencesInResources s)\<rparr>"

definition delete :: "stash \<Rightarrow> int one_or_many \<Rightarrow> unit outcome" where
  "delete s sentenceIds =
     (let sentenceIdList = wrapInArray sentenceIds in
      case checkValidInDb s sentenceIdList of
        Some e \<Rightarrow> (Inl e, s)
      | None \<Rightarrow>
          (case setSelectedIds (delete_transaction s sentenceIdList) (Many sentenceIdList) Remove of
             (Inl e, s2) \<Rightarrow> (Inl e, s2)
           | (Inr _, s2) \<Rightarrow> fetchResourceSentences s2))"

text \<open>The four statements of \<open>delete\<close> one after the other: the guard, the
  transaction, the adjustment of the selection, the re-fetch. \<open>run\<close> executes a
  sequence of steps and stops at the first that throws; \<open>states\<close> lists the stash
  after each step that was executed.\<close>

type_synonym step = "stash \<Rightarrow> unit outcome"

fun run :: "step list \<Rightarrow> stash \<Rightarrow> unit outcome" where
  "run [] s = (Inr (), s)"
| "run (f # fs) s =
     (case f s of
        (Inl e, s') \<Rightarrow> (Inl e, s')
      | (Inr _, s') \<Rightarrow> run fs s')"

fun states :: "step list \<Rightarrow> stash \<Rightarrow> stash list" where
  "states [] s = []"
| "states (f # fs) s =
     (case f s of
        (Inl e, s') \<Rightarrow> [s']
      | (Inr _, s') \<Rightarrow> s' # states fs s')"

definition deleteSteps :: "int one_or_many \<Rightarrow> step list" where
  "deleteSteps sentenceIds =
     (let sentenceIdList = wrapInArray sentenceIds in
      [\<lambda>s. (case checkValidInDb s sentenceIdList of Some e \<Rightarrow> Inl e | None \<Rightarrow> Inr (), s),
       \<lambda>s. (Inr (), delete_transaction s sentenceIdList),
       \<lambda>s. (case setSelectedIds s (Many sentenceIdList) Remove of
              (Inl e, s') \<Rightarrow> (Inl e, s')
            | (Inr _, s') \<Rightarrow> (Inr (), s')),
       fetchResourceSentences])"

text \<open>Modelled from the spec: \<open>putSentenceInResource\<close> of \<open>@/api/db\<close> is not among the
  sources; it upserts the row of the relationship table for the child and the
  parent. It is a function of the database layer and has no access to the state of
  a module.\<close>

definition putSentenceInResource :: "stash \<Rightarrow> int \<Rightarrow> int \<Rightarrow> int \<Rightarrow> stash" where
  "putSentenceInResource s sid rid journalId =
     (let r = \<lparr>sentenceId = sid, resourceId = rid\<rparr> in
      if r \<in> set (sentencesInResources s) then s
      else s\<lparr>sentencesInResources := sentencesInResources s @ [r]\<rparr>)"

text \<open>\<open>putSentencesInResource\<close>: the guard for the active journal, then one transaction
  that puts each sentence into the resource.\<close>

definition putSentencesInResource :: "stash \<Rightarrow> int list \<Rightarrow> int \<Rightarrow> unit outcome" where
  "putSentencesInResource s sentenceIds rid =
     (case activeJournal s of
        None \<Rightarrow> (Inl ActiveJournalNotSet, s)
      | Some j \<Rightarrow>
          (let activeJournalId = id_journal j in
           if activeJournalId = 0 then (Inl ActiveJournalNotSet, s)
           else (Inr (),
                 foldl (\<lambda>s' sentenceId. putSentenceInResource s' sentenceId rid activeJournalId)
                   s sentenceIds)))"

section \<open>Example stashes\<close>

definition journalOne :: journal where
  "journalOne = \<lparr>id_journal = 1, name = ''J''\<rparr>"

text \<open>Sentence 1 is persisted and not loaded.\<close>

definition stashRowOnly :: stash where
  "stashRowOnly =
     \<lparr>all = Map.empty, selectedIds = [], table = [1 \<mapsto> Sentence ''a'' 1], tableNextId = 2,
      sentencesInResources = [], resources_selectedIds = [],
      journals_active = Some journalOne\<rparr>"

text \<open>Sentence 1 is loaded and has no persisted row.\<close>

definition stashLoadedOnly :: stash where
  "stashLoadedOnly =
     \<lparr>all = [1 \<mapsto> \<lparr>id_entry = 1, flds = Sentence ''a'' 1\<rparr>], selectedIds = [],
      table = Map.empty, tableNextId = 1,
      sentencesInResources = [], resources_selectedIds = [],
      journals_active = Some journalOne\<rparr>"

text \<open>Sentence 1 is persisted, loaded and selected.\<close>

definition stashLoaded :: stash where
  "stashLoaded =
     \<lparr>all = [1 \<mapsto> \<lparr>id_entry = 1, flds = Sentence ''a'' 1\<rparr>], selectedIds = [1],
      table = [1 \<mapsto> Sentence ''a'' 1], tableNextId = 2,
      sentencesInResources = [], resources_selectedIds = [],
      journals_active = Some journalOne\<rparr>"

text \<open>Journal 1 is active; the only persisted sentence, 5, belongs to journal 2 and is
  linked to resource 9.\<close>

definition stashForeignRow :: stash where
  "stashForeignRow =
     \<lparr>all = Map.empty, selectedIds = [], table = [5 \<mapsto> Sentence ''x'' 2], tableNextId = 6,
      sentencesInResources = [\<lparr>sentenceId = 5, resourceId = 9\<rparr>],
      resources_selectedIds = [], journals_active = Some journalOne\<rparr>"

text \<open>Resource 7 is selected and holds sentence 1.\<close>

definition stashResourceSelected :: stash where
  "stashResourceSelected =
     \<lparr>all = Map.empty, selectedIds = [], table = [1 \<mapsto> Sentence ''a'' 1], tableNextId = 2,
      sentencesInResources = [\<lparr>sentenceId = 1, resourceId = 7\<rparr>],
      resources_selectedIds = [7], journals_active = Some journalOne\<rparr>"

section \<open>Auxiliary facts\<close>

lemma checkValid_fails:
  "i \<in> set is \<Longrightarrow> isValid s i \<noteq> Inr True \<Longrightarrow> \<exists>e. checkValid s is = Some e"
proof (induction "is")
  case Nil
  then show ?case by simp
next
  case (Cons a as)
  show ?case
  proof (cases "isValid s a")
    case (Inl e)
    then show ?thesis by simp
  next
    case (Inr b)
    show ?thesis
    proof (cases b)
      case False
      with Inr show ?thesis by simp
    next
      case True
      with Inr Cons.prems have "i \<in> set as" by auto
      with Cons.IH Cons.prems(2) Inr True show ?thesis by simp
    qed
  qed
qed

lemma isValid_cong:
  "all s' = all s \<Longrightarrow> journals_active s' = journals_active s \<Longrightarrow> isValid s' i = isValid s i"
  by (simp add: isValid_def activeJournal_def get_def split: option.split)

lemma checkValid_cong:
  "all s' = all s \<Longrightarrow> journals_active s' = journals_active s \<Longrightarrow>
     checkValid s' l = checkValid s l"
  by (induction l) (simp_all add: isValid_cong[of s' s] split: sum.split bool.split)

lemma set_appendNew: "set (appendNew acc xs) = set acc \<union> set xs"
  by (induction xs arbitrary: acc) auto

lemma appendNew_present: "set xs \<subseteq> set acc \<Longrightarrow> appendNew acc xs = acc"
  by (induction xs arbitrary: acc) auto

lemma updateArrayWithValues_idem:
  "updateArrayWithValues (updateArrayWithValues cur vs m) vs m = updateArrayWithValues cur vs m"
  by (cases m) (simp_all add: appendNew_present set_appendNew)

lemma stash_table_same: "table s i = Some row \<Longrightarrow> s\<lparr>table := (table s)(i \<mapsto> row)\<rparr> = s"
  by (simp add: map_upd_triv)

lemma modify_no_row: "table s i = None \<Longrightarrow> modify s i mutator = (0, s)"
  by (simp add: modify_def)

lemma modify_kept:
  "table s i = Some row \<Longrightarrow>
   mutator \<lparr>id_entry = i, flds = row\<rparr> s = (Undefined, \<lparr>id_entry = i, flds = row\<rparr>, s) \<Longrightarrow>
   modify s i mutator = (1, s)"
  by (simp add: modify_def stash_table_same)

lemma mutator_not_loaded:
  "all s i = None \<Longrightarrow>
   updateStateAndDb_mutator k g \<lparr>id_entry = i, flds = row\<rparr> s
     = (Undefined, \<lparr>id_entry = i, flds = row\<rparr>, s)"
  by (simp add: updateStateAndDb_mutator_def get_def)

lemma updateStateAndDb_no_row: "table s i = None \<Longrightarrow> updateStateAndDb s i k p = (Inr 0, s)"
  by (simp add: updateStateAndDb_def modify_no_row)

lemma updateStateAndDb_not_loaded: "all s i = None \<Longrightarrow> snd (updateStateAndDb s i k p) = s"
proof (cases "table s i")
  case None
  then show ?thesis by (simp add: updateStateAndDb_no_row)
next
  case (Some row)
  assume "all s i = None"
  with Some have "modify s i (updateStateAndDb_mutator k g) = (1, s)" for g
    by (simp add: modify_kept mutator_not_loaded)
  then show ?thesis by (simp add: updateStateAndDb_def)
qed

lemma updateStateAndDb_written:
  assumes "table s i = Some row" and "all s i = Some e"
    and "row k \<noteq> (case p of Deriver f \<Rightarrow> f | Value v \<Rightarrow> (\<lambda>_. v)) e"
  shows "snd (updateStateAndDb s i k p) =
           s\<lparr>all := (all s)(i \<mapsto> e\<lparr>flds := (flds e)(k := (case p of Deriver f \<Rightarrow> f | Value v \<Rightarrow> (\<lambda>_. v)) e)\<rparr>),
             table := (table s)(i \<mapsto> row(k := (case p of Deriver f \<Rightarrow> f | Value v \<Rightarrow> (\<lambda>_. v)) e))\<rparr>"
  using assms
  by (simp add: updateStateAndDb_def modify_def updateStateAndDb_mutator_def get_def Let_def)

lemma updateStateAndDb_skipped:
  assumes "table s i = Some row" and "all s i = Some e"
    and "row k = (case p of Deriver f \<Rightarrow> f | Value v \<Rightarrow> (\<lambda>_. v)) e"
  shows "updateStateAndDb s i k p = (Inr 1, s)"
proof -
  have "updateStateAndDb_mutator k (case p of Deriver f \<Rightarrow> f | Value v \<Rightarrow> (\<lambda>_. v))
          \<lparr>id_entry = i, flds = row\<rparr> s = (Undefined, \<lparr>id_entry = i, flds = row\<rparr>, s)"
    using assms by (simp add: updateStateAndDb_mutator_def get_def)
  with assms(1) show ?thesis
    by (simp add: updateStateAndDb_def modify_kept)
qed

lemma delete_run: "delete s sentenceIds = run (deleteSteps sentenceIds) s"
proof (cases "checkValidInDb s (wrapInArray sentenceIds)")
  case (Some e)
  then show ?thesis by (simp add: delete_def deleteSteps_def Let_def)
next
  case None
  let ?l = "wrapInArray sentenceIds"
  obtain r s2 where sel: "setSelectedIds (delete_transaction s ?l) (Many ?l) Remove = (r, s2)"
    by (cases "setSelectedIds (delete_transaction s ?l) (Many ?l) Remove") auto
  show ?thesis
  proof (cases r)
    case (Inl e)
    with None sel show ?thesis by (simp add: delete_def deleteSteps_def Let_def)
  next
    case (Inr u)
    obtain r3 s3 where f: "fetchResourceSentences s2 = (r3, s3)"
      by (cases "fetchResourceSentences s2") auto
    with None sel Inr show ?thesis
      by (cases r3) (simp_all add: delete_def deleteSteps_def Let_def)
  qed
qed

lemma run_last: "snd (run fs s) = last (s # states fs s)"
proof (induction fs arbitrary: s)
  case Nil
  then show ?case by simp
next
  case (Cons f fs)
  obtain r s' where f: "f s = (r, s')" by (cases "f s") auto
  show ?case
  proof (cases r)
    case (Inl e)
    with f show ?thesis by simp
  next
    case (Inr u)
    with f Cons.IH [of s'] show ?thesis by simp
  qed
qed

lemma deleteSteps_states:
  "states (deleteSteps sentenceIds) s = [s] \<or>
   (\<exists>rest. states (deleteSteps sentenceIds) s
            = s # delete_transaction s (wrapInArray sentenceIds) # rest)"
  by (cases "checkValidInDb s (wrapInArray sentenceIds)") (simp_all add: deleteSteps_def Let_def)

lemma delete_transaction_state:
  "all (delete_transaction s l) = all s" "selectedIds (delete_transaction s l) = selectedIds s"
  by (simp_all add: delete_transaction_def)

lemma putSentenceInResource_state:
  "all (putSentenceInResource s sid rid j) = all s"
  "selectedIds (putSentenceInResource s sid rid j) = selectedIds s"
  by (simp_all add: putSentenceInResource_def Let_def)

lemma foldl_putSentenceInResource_state:
  "all (foldl (\<lambda>s' sid. putSentenceInResource s' sid rid j) s ids) = all s \<and>
   selectedIds (foldl (\<lambda>s' sid. putSentenceInResource s' sid rid j) s ids) = selectedIds s"
  by (induction ids arbitrary: s) (simp_all add: putSentenceInResource_state)

lemma putSentencesInResource_state:
  "all (snd (putSentencesInResource s ids rid)) = all s"
  "selectedIds (snd (putSentencesInResource s ids rid)) = selectedIds s"
  by (simp_all add: putSentencesInResource_def Let_def foldl_putSentenceInResource_state
      split: option.split)

lemma new_state:
  "all (snd (new s texts)) = all s" "selectedIds (snd (new s texts)) = selectedIds s"
  by (simp_all add: new_def Let_def split: option.split prod.split)

lemma bulkAdd_length: "bulkAdd rs tbl n = (ks, tbl', n') \<Longrightarrow> length ks = length rs"
  by (induction rs arbitrary: tbl n ks tbl' n') (auto split: prod.splits)

lemma bulkAdd_frame:
  "bulkAdd rs tbl n = (ks, tbl', n') \<Longrightarrow> i \<notin> set ks \<Longrightarrow> tbl' i = tbl i"
proof (induction rs arbitrary: tbl n ks)
  case Nil
  then show ?case by simp
next
  case (Cons r rs)
  obtain ks0 where b: "bulkAdd rs (tbl(n \<mapsto> r)) (n + 1) = (ks0, tbl', n')" and ks: "ks = n # ks0"
    using Cons.prems(1) by (auto split: prod.splits)
  from ks Cons.prems(2) have "i \<notin> set ks0" and "i \<noteq> n" by auto
  with Cons.IH[OF b] show ?case by simp
qed

lemma bulkAdd_keys:
  "bulkAdd rs tbl n = (ks, tbl', n') \<Longrightarrow>
     ks = map (\<lambda>k. n + int k) [0..<length rs] \<and> n' = n + int (length rs)"
proof (induction rs arbitrary: tbl n ks tbl' n')
  case Nil
  then show ?case by simp
next
  case (Cons r rs)
  obtain ks0 where b: "bulkAdd rs (tbl(n \<mapsto> r)) (n + 1) = (ks0, tbl', n')" and ks: "ks = n # ks0"
    using Cons.prems by (auto split: prod.splits)
  from Cons.IH[OF b] have "ks0 = map (\<lambda>k. n + 1 + int k) [0..<length rs]"
    and n': "n' = n + 1 + int (length rs)"
    by simp_all
  then have "ks0 = map (\<lambda>k. n + int k) (map Suc [0..<length rs])"
    by (simp add: comp_def add.assoc)
  then have "n # ks0 = map (\<lambda>k. n + int k) [0..<Suc (length rs)]"
    by (simp add: upt_conv_Cons map_Suc_upt del: upt_Suc)
  with ks n' show ?case by simp
qed

lemma bulkAdd_stored:
  "bulkAdd rs tbl n = (ks, tbl', n') \<Longrightarrow> k < length rs \<Longrightarrow> tbl' (n + int k) = Some (rs ! k)"
proof (induction rs arbitrary: tbl n ks tbl' n' k)
  case Nil
  then show ?case by simp
next
  case (Cons r rs)
  obtain ks0 where b: "bulkAdd rs (tbl(n \<mapsto> r)) (n + 1) = (ks0, tbl', n')" and ks: "ks = n # ks0"
    using Cons.prems by (auto split: prod.splits)
  show ?case
  proof (cases k)
    case 0
    have "n \<notin> set ks0" using bulkAdd_keys[OF b] by auto
    from bulkAdd_frame[OF b this] 0 show ?thesis by simp
  next
    case (Suc m)
    with Cons.prems have "m < length rs" by simp
    from Cons.IH[OF b this] Suc show ?thesis by (simp add: add.assoc)
  qed
qed

lemma Sentence_props [simp]:
  "Sentence text j ''journalId'' = Num j" "Sentence text j ''text'' = Str text"
  by (simp_all add: Sentence_def)

section \<open>Claims\<close>

subsection \<open>C1: \<open>updateStateAndDb\<close> when the entry is not loaded\<close>

text \<open>
  Claim C1 says that, when the loaded copy of the entity is absent, \<open>updateStateAndDb\<close>
  still sets the field of the persisted row to the payload value. The mutator returns
  before it touches the row when the entry is not loaded: with sentence 1 persisted
  with text \<open>a\<close> and not loaded, an update of the text to \<open>b\<close> leaves the row as it was.
\<close>

theorem updateStateAndDb_not_loaded_counterexample:
  "all stashRowOnly 1 = None \<and>
   table stashRowOnly 1 = Some (Sentence ''a'' 1) \<and>
   table (snd (updateStateAndDb stashRowOnly 1 ''text'' (Value (Str ''b'')))) 1
     = Some (Sentence ''a'' 1) \<and>
   Sentence ''a'' 1 ''text'' \<noteq> Str ''b''"
  by (simp add: updateStateAndDb_not_loaded stashRowOnly_def)

text \<open>
  Claim C1, amended: when the loaded copy of the entity is absent, \<open>updateStateAndDb\<close>
  changes nothing, neither the persisted row nor the in-memory state, in
  \<open>EntryStash\<close> and in \<open>StashModule\<close> (which returns 0).
\<close>

theorem updateStateAndDb_not_loaded_noop:
  "all s i = None \<Longrightarrow>
     snd (updateStateAndDb s i k p) = s \<and>
     StashModule_updateStateAndDb s i k v = (Inr Zero, s)"
proof -
  assume a: "all s i = None"
  then have "snd (updateStateAndDb s i k p) = s"
    by (rule updateStateAndDb_not_loaded)
  moreover from a have "StashModule_updateStateAndDb s i k v = (Inr Zero, s)"
    by (simp add: StashModule_updateStateAndDb_def get_def)
  ultimately show ?thesis by simp
qed

theorem updateStateAndDb_not_loaded_noop_witness:
  "all stashRowOnly 1 = None \<and>
   snd (updateStateAndDb stashRowOnly 1 ''text'' (Value (Str ''b''))) = stashRowOnly \<and>
   StashModule_updateStateAndDb stashRowOnly 1 ''text'' (Str ''b'') = (Inr Zero, stashRowOnly)"
proof -
  have h: "all stashRowOnly 1 = None" by (simp add: stashRowOnly_def)
  from updateStateAndDb_not_loaded_noop [OF h] h show ?thesis by simp
qed

subsection \<open>C2: \<open>delete\<close> with an id that is not valid in the active journal\<close>

text \<open>
  Claim C2 says that \<open>delete\<close> raises an error before any mutation when an id is not
  valid in the active journal. The guard of \<open>delete\<close> negates the promise that
  \<open>isValidInDb\<close> returns, so it never throws: with journal 1 active, deleting
  sentence 5 of journal 2 removes its row and its link to resource 9, and the
  error comes afterwards, from \<open>setSelectedIds\<close>.
\<close>

theorem delete_invalid_id_deletes_rows:
  "isValidInDb stashForeignRow 5 = Resolved False \<and>
   table stashForeignRow 5 = Some (Sentence ''x'' 2) \<and>
   sentencesInResources stashForeignRow = [\<lparr>sentenceId = 5, resourceId = 9\<rparr>] \<and>
   fst (delete stashForeignRow (One 5)) = Inl (EntryNotValid 5) \<and>
   table (snd (delete stashForeignRow (One 5))) 5 = None \<and>
   sentencesInResources (snd (delete stashForeignRow (One 5))) = []"
  by (simp add: delete_def truthy_def delete_transaction_def bulkDelete_def
      setSelectedIds_def isValid_def isValidInDb_def isValidDBCommonEntry_def
      activeJournal_def get_def stashForeignRow_def journalOne_def)

subsection \<open>C3: the state is written only after the table\<close>

text \<open>
  Claim C3 says that a loaded entry's field is written only after the table write
  has succeeded. \<open>StashModule.updateStateAndDb\<close> writes the loaded entry first: with
  sentence 1 loaded and not persisted, the update of its text reports 0 rows, the
  table is as it was, and the loaded entry has the new text.
\<close>

theorem updateStateAndDb_state_first_counterexample:
  "fst (StashModule_updateStateAndDb stashLoadedOnly 1 ''text'' (Str ''b'')) = Inr Zero \<and>
   table (snd (StashModule_updateStateAndDb stashLoadedOnly 1 ''text'' (Str ''b'')))
     = table stashLoadedOnly \<and>
   all stashLoadedOnly 1 = Some \<lparr>id_entry = 1, flds = Sentence ''a'' 1\<rparr> \<and>
   all (snd (StashModule_updateStateAndDb stashLoadedOnly 1 ''text'' (Str ''b''))) 1
     = Some \<lparr>id_entry = 1, flds = (Sentence ''a'' 1)(''text'' := Str ''b'')\<rparr>"
  by (simp add: StashModule_updateStateAndDb_def tableUpdate_def get_def stashLoadedOnly_def)

text \<open>
  Claim C3, amended: in every multi-step workflow the in-memory state is written only
  after the transaction: \<open>new\<close> and \<open>putSentencesInResource\<close> never write the loaded
  mapping or the selection, and \<open>delete\<close> is the sequence of its four steps, in which
  a stash whose loaded mapping or selection differs from the initial one occurs only
  after the step of the transaction. \<open>updateStateAndDb\<close> does not wait for the table:
  \<open>EntryStash.updateStateAndDb\<close> changes the loaded mapping only together with the
  persisted row of the id, writing the same value to both in the same step of
  \<open>modify\<close>, and \<open>StashModule.updateStateAndDb\<close> writes the field of a loaded entry
  whatever the table update does afterwards.
\<close>

theorem state_written_after_transaction:
  "all (snd (new s texts)) = all s \<and> selectedIds (snd (new s texts)) = selectedIds s \<and>
   all (snd (putSentencesInResource s ids rid)) = all s \<and>
   selectedIds (snd (putSentencesInResource s ids rid)) = selectedIds s \<and>
   delete s sentenceIds = run (deleteSteps sentenceIds) s \<and>
   snd (delete s sentenceIds) = last (states (deleteSteps sentenceIds) s) \<and>
   (\<forall>n < length (states (deleteSteps sentenceIds) s).
      all (states (deleteSteps sentenceIds) s ! n) \<noteq> all s \<or>
      selectedIds (states (deleteSteps sentenceIds) s ! n) \<noteq> selectedIds s \<longrightarrow>
        2 \<le> n \<and>
        states (deleteSteps sentenceIds) s ! 1
          = delete_transaction s (wrapInArray sentenceIds)) \<and>
   (all (snd (updateStateAndDb s i k p)) \<noteq> all s \<longrightarrow>
      (\<exists>row e v. table s i = Some row \<and> all s i = Some e \<and>
         table (snd (updateStateAndDb s i k p)) = (table s)(i \<mapsto> row(k := v)) \<and>
         all (snd (updateStateAndDb s i k p)) = (all s)(i \<mapsto> e\<lparr>flds := (flds e)(k := v)\<rparr>))) \<and>
   (all s i = Some e' \<and> flds e' k \<noteq> v' \<longrightarrow>
      all (snd (StashModule_updateStateAndDb s i k v'))
        = (all s)(i \<mapsto> e'\<lparr>flds := (flds e')(k := v')\<rparr>))"
proof -
  let ?st = "states (deleteSteps sentenceIds) s"
  let ?tx = "delete_transaction s (wrapInArray sentenceIds)"
  have run: "delete s sentenceIds = run (deleteSteps sentenceIds) s"
    by (rule delete_run)
  have shape: "?st = [s] \<or> (\<exists>rest. ?st = s # ?tx # rest)"
    by (rule deleteSteps_states)
  then have "?st \<noteq> []" by auto
  then have last: "snd (delete s sentenceIds) = last ?st"
    by (simp add: run run_last)
  have order: "\<forall>n < length ?st.
      all (?st ! n) \<noteq> all s \<or> selectedIds (?st ! n) \<noteq> selectedIds s \<longrightarrow>
        2 \<le> n \<and> ?st ! 1 = ?tx"
  proof (intro allI impI)
    fix n
    assume n: "n < length ?st"
      and d: "all (?st ! n) \<noteq> all s \<or> selectedIds (?st ! n) \<noteq> selectedIds s"
    from shape show "2 \<le> n \<and> ?st ! 1 = ?tx"
    proof
      assume "?st = [s]"
      with n d show ?thesis by simp
    next
      assume "\<exists>rest. ?st = s # ?tx # rest"
      then obtain rest where st: "?st = s # ?tx # rest" by blast
      have "n \<noteq> 0"
      proof
        assume "n = 0"
        with st have "?st ! n = s" by simp
        with d show False by simp
      qed
      moreover have "n \<noteq> 1"
      proof
        assume "n = 1"
        with st have "?st ! n = ?tx" by simp
        with d show False by (simp add: delete_transaction_state)
      qed
      ultimately have "2 \<le> n" by simp
      with st show ?thesis by simp
    qed
  qed
  let ?g = "case p of Deriver f \<Rightarrow> f | Value v \<Rightarrow> (\<lambda>_. v)"
  have entry: "all (snd (updateStateAndDb s i k p)) \<noteq> all s \<longrightarrow>
      (\<exists>row e v. table s i = Some row \<and> all s i = Some e \<and>
         table (snd (updateStateAndDb s i k p)) = (table s)(i \<mapsto> row(k := v)) \<and>
         all (snd (updateStateAndDb s i k p)) = (all s)(i \<mapsto> e\<lparr>flds := (flds e)(k := v)\<rparr>))"
  proof
    assume changed: "all (snd (updateStateAndDb s i k p)) \<noteq> all s"
    then obtain e where e: "all s i = Some e"
      using updateStateAndDb_not_loaded [of s i k p] by (cases "all s i") auto
    from changed obtain row where row: "table s i = Some row"
      using updateStateAndDb_no_row [of s i k p] by (cases "table s i") auto
    from changed have "row k \<noteq> ?g e"
      using updateStateAndDb_skipped [OF row e, of k p] by auto
    from updateStateAndDb_written [OF row e this] row e
    show "\<exists>row e v. table s i = Some row \<and> all s i = Some e \<and>
            table (snd (updateStateAndDb s i k p)) = (table s)(i \<mapsto> row(k := v)) \<and>
            all (snd (updateStateAndDb s i k p)) = (all s)(i \<mapsto> e\<lparr>flds := (flds e)(k := v)\<rparr>)"
      by auto
  qed
  have module: "all s i = Some e' \<and> flds e' k \<noteq> v' \<longrightarrow>
      all (snd (StashModule_updateStateAndDb s i k v'))
        = (all s)(i \<mapsto> e'\<lparr>flds := (flds e')(k := v')\<rparr>)"
    by (simp add: StashModule_updateStateAndDb_def tableUpdate_def get_def
        split: option.split prod.split)
  from run last order entry module show ?thesis
    by (simp only: new_state putSentencesInResource_state simp_thms)
qed

theorem state_written_after_transaction_witness:
  "2 < length (states (deleteSteps (One 1)) stashLoaded) \<and>
   selectedIds (states (deleteSteps (One 1)) stashLoaded ! 2) \<noteq> selectedIds stashLoaded \<and>
   states (deleteSteps (One 1)) stashLoaded ! 1 = delete_transaction stashLoaded [1] \<and>
   table (delete_transaction stashLoaded [1]) 1 = None \<and>
   selectedIds (delete_transaction stashLoaded [1]) = [1] \<and>
   all (snd (updateStateAndDb stashLoaded 1 ''text'' (Value (Str ''b'')))) \<noteq> all stashLoaded \<and>
   table (snd (updateStateAndDb stashLoaded 1 ''text'' (Value (Str ''b'')))) 1
     = Some ((Sentence ''a'' 1)(''text'' := Str ''b'')) \<and>
   all (snd (updateStateAndDb stashLoaded 1 ''text'' (Value (Str ''b'')))) 1
     = Some \<lparr>id_entry = 1, flds = (Sentence ''a'' 1)(''text'' := Str ''b'')\<rparr> \<and>
   all stashLoadedOnly 1 = Some \<lparr>id_entry = 1, flds = Sentence ''a'' 1\<rparr> \<and>
   flds \<lparr>id_entry = 1, flds = Sentence ''a'' 1\<rparr> ''text'' \<noteq> Str ''b'' \<and>
   all (snd (StashModule_updateStateAndDb stashLoadedOnly 1 ''text'' (Str ''b''))) 1
     = Some \<lparr>id_entry = 1, flds = (Sentence ''a'' 1)(''text'' := Str ''b'')\<rparr>"
proof -
  let ?st = "states (deleteSteps (One 1)) stashLoaded"
  let ?r = "snd (updateStateAndDb stashLoaded 1 ''text'' (Value (Str ''b'')))"
  let ?e = "\<lparr>id_entry = 1, flds = Sentence ''a'' 1\<rparr>"
  note inst = state_written_after_transaction [where s = stashLoaded and i = 1
      and k = "''text''" and p = "Value (Str ''b'')" and texts = "Many []" and ids = "[]"
      and rid = 0 and sentenceIds = "One 1" and e' = ?e and v' = "Str ''b''"]
  note inst' = state_written_after_transaction [where s = stashLoadedOnly and i = 1
      and k = "''text''" and p = "Value (Str ''b'')" and texts = "Many []" and ids = "[]"
      and rid = 0 and sentenceIds = "One 1" and e' = ?e and v' = "Str ''b''"]
  have len: "2 < length ?st"
    by (simp add: deleteSteps_def Let_def truthy_def setSelectedIds_def isValid_def activeJournal_def
        get_def areArraysEqual_def delete_transaction_def fetchResourceSentences_def
        stashLoaded_def journalOne_def)
  have sel: "selectedIds (?st ! 2) \<noteq> selectedIds stashLoaded"
    by (simp add: deleteSteps_def Let_def truthy_def setSelectedIds_def isValid_def activeJournal_def
        get_def areArraysEqual_def delete_transaction_def fetchResourceSentences_def
        stashLoaded_def journalOne_def)
  from inst len sel have tx: "?st ! 1 = delete_transaction stashLoaded [1]"
    by simp
  have gone: "table (delete_transaction stashLoaded [1]) 1 = None"
    and kept: "selectedIds (delete_transaction stashLoaded [1]) = [1]"
    by (simp_all add: delete_transaction_def bulkDelete_def stashLoaded_def)
  have e: "all stashLoaded 1 = Some ?e"
    by (simp add: stashLoaded_def)
  have at1: "all ?r 1 = Some \<lparr>id_entry = 1, flds = (Sentence ''a'' 1)(''text'' := Str ''b'')\<rparr>"
    by (simp add: updateStateAndDb_def modify_def updateStateAndDb_mutator_def get_def
        Let_def stashLoaded_def)
  have "((Sentence ''a'' 1)(''text'' := Str ''b'')) ''text'' \<noteq> Sentence ''a'' 1 ''text''"
    by simp
  then have "(Sentence ''a'' 1)(''text'' := Str ''b'') \<noteq> Sentence ''a'' 1"
    by metis
  with at1 e have "all ?r 1 \<noteq> all stashLoaded 1" by simp
  then have changed: "all ?r \<noteq> all stashLoaded" by metis
  have tbl1: "table ?r 1 = Some ((Sentence ''a'' 1)(''text'' := Str ''b''))"
    by (simp add: updateStateAndDb_def modify_def updateStateAndDb_mutator_def get_def
        Let_def stashLoaded_def)
  from inst changed
  have "\<exists>row e v. table stashLoaded 1 = Some row \<and> all stashLoaded 1 = Some e \<and>
          table ?r = (table stashLoaded)(1 \<mapsto> row(''text'' := v)) \<and>
          all ?r = (all stashLoaded)(1 \<mapsto> e\<lparr>flds := (flds e)(''text'' := v)\<rparr>)"
    by blast
  have h: "all stashLoadedOnly 1 = Some ?e \<and> flds ?e ''text'' \<noteq> Str ''b''"
    by (simp add: stashLoadedOnly_def)
  from inst' h
  have m: "all (snd (StashModule_updateStateAndDb stashLoadedOnly 1 ''text'' (Str ''b'')))
      = (all stashLoadedOnly)(1 \<mapsto> \<lparr>id_entry = 1, flds = (Sentence ''a'' 1)(''text'' := Str ''b'')\<rparr>)"
    by simp
  from len sel tx gone kept changed tbl1 at1 h m show ?thesis by simp
qed

subsection \<open>C4: \<open>setSelectedIds\<close> fails as a whole\<close>

text \<open>
  Claim C4: for every list of ids and every mode, if a single id of the input fails
  \<open>isValid\<close> (it is not valid, or \<open>isValid\<close> itself throws), \<open>setSelectedIds\<close> raises an
  error and the stash, the selection list included, is exactly as it was, whatever
  the other ids of the batch are.
\<close>

theorem setSelectedIds_atomic:
  "i \<in> set (wrapInArray ids) \<Longrightarrow> isValid s i \<noteq> Inr True \<Longrightarrow>
     \<exists>e. setSelectedIds s ids mode = (Inl e, s)"
  using checkValid_fails [of i "wrapInArray ids" s] by (auto simp: setSelectedIds_def)

theorem setSelectedIds_atomic_witness:
  "2 \<in> set (wrapInArray (Many [1, 2])) \<and> isValid stashLoaded 2 \<noteq> Inr True \<and>
   isValid stashLoaded 1 = Inr True \<and>
   setSelectedIds stashLoaded (Many [1, 2]) Add = (Inl (EntryNotValid 2), stashLoaded)"
proof -
  have h1: "2 \<in> set (wrapInArray (Many [1, 2 :: int]))" by simp
  have h2: "isValid stashLoaded 2 \<noteq> Inr True"
    by (simp add: isValid_def activeJournal_def get_def stashLoaded_def)
  have h3: "isValid stashLoaded 1 = Inr True"
    by (simp add: isValid_def activeJournal_def get_def stashLoaded_def journalOne_def)
  from setSelectedIds_atomic [OF h1 h2, of Add]
  obtain e where e: "setSelectedIds stashLoaded (Many [1, 2]) Add = (Inl e, stashLoaded)"
    by blast
  have "fst (setSelectedIds stashLoaded (Many [1, 2]) Add) = Inl (EntryNotValid 2)"
    using h3 by (simp add: setSelectedIds_def isValid_def activeJournal_def get_def
        stashLoaded_def)
  with e h1 h2 h3 show ?thesis by simp
qed

subsection \<open>C5: \<open>addToAll\<close> with an id that is loaded\<close>

text \<open>
  Claim C5 says that a second \<open>addToAll\<close> with the same id fails by raising an error.
  \<open>StashModule.addToAll\<close> does not raise: with sentence 1 loaded, adding an entry with
  id 1 returns 0.
\<close>

theorem addToAll_duplicate_counterexample:
  "all stashLoaded 1 = Some \<lparr>id_entry = 1, flds = Sentence ''a'' 1\<rparr> \<and>
   StashModule_addToAll stashLoaded \<lparr>id_entry = 1, flds = Sentence ''b'' 1\<rparr>
     = (Inr Zero, stashLoaded)"
  by (simp add: StashModule_addToAll_def stashLoaded_def)

text \<open>
  Claim C5, amended: for every entity whose id is present in the loaded mapping,
  \<open>addToAll\<close> fails and leaves the mapping unchanged: \<open>EntryStash.addToAll\<close> raises an
  error, \<open>StashModule.addToAll\<close> returns 0.
\<close>

theorem addToAll_duplicate:
  "all s (id_entry v) \<noteq> None \<Longrightarrow>
     addToAll s v = (Inl (EntryAlreadyExists (id_entry v)), s) \<and>
     StashModule_addToAll s v = (Inr Zero, s)"
  by (auto simp: addToAll_def StashModule_addToAll_def)

theorem addToAll_duplicate_witness:
  "all stashLoaded (id_entry \<lparr>id_entry = 1, flds = Sentence ''b'' 1\<rparr>) \<noteq> None \<and>
   addToAll stashLoaded \<lparr>id_entry = 1, flds = Sentence ''b'' 1\<rparr>
     = (Inl (EntryAlreadyExists 1), stashLoaded) \<and>
   StashModule_addToAll stashLoaded \<lparr>id_entry = 1, flds = Sentence ''b'' 1\<rparr>
     = (Inr Zero, stashLoaded)"
proof -
  have h: "all stashLoaded (id_entry \<lparr>id_entry = 1, flds = Sentence ''b'' 1\<rparr>) \<noteq> None"
    by (simp add: stashLoaded_def)
  from addToAll_duplicate [OF h] h show ?thesis by simp
qed

subsection \<open>C6: \<open>updateStateAndDb\<close> with the value the row already has\<close>

text \<open>
  Claim C6 says that \<open>updateStateAndDb\<close> with a value that the field of the persisted
  row already has returns 0 and performs no write. The function returns the count of
  \<open>modify\<close>, and its mutator returns \<open>undefined\<close> where it skips the assignment, not
  \<open>false\<close>, so the row is put back and counted: with sentence 1 persisted and loaded
  with text \<open>a\<close>, an update of the text to \<open>a\<close> returns 1. The row and the loaded
  entry are as they were, and nothing is thrown.
\<close>

theorem updateStateAndDb_same_value_counts:
  "table stashLoaded 1 = Some (Sentence ''a'' 1) \<and>
   all stashLoaded 1 = Some \<lparr>id_entry = 1, flds = Sentence ''a'' 1\<rparr> \<and>
   Sentence ''a'' 1 ''text'' = Str ''a'' \<and>
   updateStateAndDb stashLoaded 1 ''text'' (Value (Str ''a'')) = (Inr 1, stashLoaded)"
proof -
  have row: "table stashLoaded 1 = Some (Sentence ''a'' 1)"
    and e: "all stashLoaded 1 = Some \<lparr>id_entry = 1, flds = Sentence ''a'' 1\<rparr>"
    by (simp_all add: stashLoaded_def)
  have "Sentence ''a'' 1 ''text''
          = (case Value (Str ''a'') of Deriver f \<Rightarrow> f | Value v \<Rightarrow> (\<lambda>_. v))
              \<lparr>id_entry = 1, flds = Sentence ''a'' 1\<rparr>"
    by simp
  from updateStateAndDb_skipped [OF row e this] row e show ?thesis by simp
qed

subsection \<open>C7: \<open>setSelectedIds\<close> is idempotent\<close>

text \<open>
  Claim C7: for every input and mode with which \<open>setSelectedIds\<close> succeeds, a second
  call with the same arguments returns 0 and leaves the stash, and so the selection
  list that the first call produced, as it is.
\<close>

theorem setSelectedIds_idempotent:
  "setSelectedIds s ids mode = (Inr r, s') \<Longrightarrow> setSelectedIds s' ids mode = (Inr Zero, s')"
proof -
  assume a: "setSelectedIds s ids mode = (Inr r, s')"
  let ?l = "wrapInArray ids"
  let ?new = "updateArrayWithValues (selectedIds s) ?l mode"
  from a have ok: "checkValid s ?l = None"
    by (cases "checkValid s ?l") (simp_all add: setSelectedIds_def)
  from a ok have s': "s' = s\<lparr>selectedIds := ?new\<rparr>"
    by (cases "selectedIds s = ?new") (auto simp: setSelectedIds_def areArraysEqual_def)
  have "checkValid s' ?l = None"
    using ok checkValid_cong [of s' s ?l] by (simp add: s')
  moreover have "updateArrayWithValues (selectedIds s') ?l mode = selectedIds s'"
    by (simp add: s' updateArrayWithValues_idem)
  ultimately show ?thesis
    by (simp add: setSelectedIds_def areArraysEqual_def)
qed

theorem setSelectedIds_idempotent_witness:
  "setSelectedIds stashLoaded (Many [1]) Remove = (Inr Void, stashLoaded\<lparr>selectedIds := []\<rparr>) \<and>
   setSelectedIds (stashLoaded\<lparr>selectedIds := []\<rparr>) (Many [1]) Remove
     = (Inr Zero, stashLoaded\<lparr>selectedIds := []\<rparr>)"
proof -
  have h: "setSelectedIds stashLoaded (Many [1]) Remove
             = (Inr Void, stashLoaded\<lparr>selectedIds := []\<rparr>)"
    by (simp add: setSelectedIds_def isValid_def activeJournal_def get_def areArraysEqual_def
        stashLoaded_def journalOne_def)
  from setSelectedIds_idempotent [OF h] h show ?thesis by simp
qed

subsection \<open>C8: \<open>fetchResourceSentences\<close> and the selection of the resources\<close>

text \<open>
  Claim C8 says that \<open>fetchResourceSentences\<close> leaves the selection list of the
  resources module as it was. The code takes the first selected resource with
  \<open>shift()\<close>: with resource 7 selected, the selection of the resources is empty after
  the call (and the sentence of the resource is loaded).
\<close>

theorem fetchResourceSentences_shifts_selection:
  "resources_selectedIds stashResourceSelected = [7] \<and>
   fst (fetchResourceSentences stashResourceSelected) = Inr () \<and>
   resources_selectedIds (snd (fetchResourceSentences stashResourceSelected)) = [] \<and>
   all (snd (fetchResourceSentences stashResourceSelected)) 1
     = Some \<lparr>id_entry = 1, flds = Sentence ''a'' 1\<rparr>"
  by (simp add: fetchResourceSentences_def activeJournal_def setSelectedIds_def Let_def
      getResourceSentenceIds_def bulkGet_def reduceArrayToObject_def
      stashResourceSelected_def split: option.split)

subsection \<open>C9: \<open>fetchResourceSentences\<close> without a selected resource\<close>

text \<open>
  Claim C9: when the selection list of the resources is empty,
  \<open>fetchResourceSentences\<close> changes nothing: the loaded mapping is not replaced and
  the selection list is as it was.
\<close>

theorem fetchResourceSentences_no_parent:
  "resources_selectedIds s = [] \<Longrightarrow> snd (fetchResourceSentences s) = s"
  by (simp add: fetchResourceSentences_def split: option.split)

theorem fetchResourceSentences_no_parent_witness:
  "resources_selectedIds stashLoaded = [] \<and>
   fetchResourceSentences stashLoaded = (Inr (), stashLoaded)"
proof -
  have h: "resources_selectedIds stashLoaded = []" by (simp add: stashLoaded_def)
  have "fst (fetchResourceSentences stashLoaded) = Inr ()"
    by (simp add: fetchResourceSentences_def activeJournal_def stashLoaded_def)
  with fetchResourceSentences_no_parent [OF h] h show ?thesis
    by (simp add: prod_eq_iff)
qed

subsection \<open>C10: the journal of the sentences that \<open>new\<close> creates\<close>

text \<open>
  Claim C10: when \<open>new\<close> returns ids, a journal is active, there is one id per text,
  the row of each id holds the text and, as \<open>journalId\<close>, the id of the active
  journal, and no other row of the table has changed; when no journal is active,
  \<open>new\<close> raises an error and the stash is as it was.
\<close>

theorem new_journalId:
  "(new s texts = (Inr ids, s') \<longrightarrow>
      (\<exists>j. activeJournal s = Some j \<and>
           length ids = length (wrapInArray texts) \<and>
           (\<forall>k < length ids. \<exists>row. table s' (ids ! k) = Some row \<and>
              row ''journalId'' = Num (id_journal j) \<and>
              row ''text'' = Str (wrapInArray texts ! k)) \<and>
           (\<forall>i. i \<notin> set ids \<longrightarrow> table s' i = table s i))) \<and>
   (activeJournal s = None \<longrightarrow> new s texts = (Inl ActiveJournalNotSet, s))"
proof (intro conjI impI)
  assume "activeJournal s = None"
  then show "new s texts = (Inl ActiveJournalNotSet, s)" by (simp add: new_def)
next
  assume a: "new s texts = (Inr ids, s')"
  then obtain j where j: "activeJournal s = Some j" "id_journal j \<noteq> 0"
    by (cases "activeJournal s") (auto simp: new_def Let_def split: if_splits)
  let ?l = "wrapInArray texts"
  let ?rs = "map (\<lambda>text. Sentence text (id_journal j)) ?l"
  obtain ks tbl nxt where b: "bulkAdd ?rs (table s) (tableNextId s) = (ks, tbl, nxt)"
    by (cases "bulkAdd ?rs (table s) (tableNextId s)") auto
  from a j b have ids: "ids = ks" and s': "s' = s\<lparr>table := tbl, tableNextId := nxt\<rparr>"
    by (auto simp: new_def Let_def split: if_splits)
  have len: "length ks = length ?l" using bulkAdd_length [OF b] by simp
  have keys: "ks = map (\<lambda>k. tableNextId s + int k) [0..<length ?rs]"
    using bulkAdd_keys [OF b] by simp
  have rows: "\<forall>k < length ids. \<exists>row. table s' (ids ! k) = Some row \<and>
                row ''journalId'' = Num (id_journal j) \<and> row ''text'' = Str (?l ! k)"
  proof (intro allI impI)
    fix k assume k: "k < length ids"
    with ids len have k': "k < length ?rs" by simp
    have "ks ! k = tableNextId s + int k" using keys k' by simp
    with bulkAdd_stored [OF b k'] k'
    have "table s' (ids ! k) = Some (Sentence (?l ! k) (id_journal j))"
      by (simp add: ids s')
    then show "\<exists>row. table s' (ids ! k) = Some row \<and>
                 row ''journalId'' = Num (id_journal j) \<and> row ''text'' = Str (?l ! k)"
      by simp
  qed
  have frame: "\<forall>i. i \<notin> set ids \<longrightarrow> table s' i = table s i"
    using bulkAdd_frame [OF b] by (simp add: ids s')
  from j len rows frame ids
  show "\<exists>j. activeJournal s = Some j \<and> length ids = length ?l \<and>
           (\<forall>k < length ids. \<exists>row. table s' (ids ! k) = Some row \<and>
              row ''journalId'' = Num (id_journal j) \<and> row ''text'' = Str (?l ! k)) \<and>
           (\<forall>i. i \<notin> set ids \<longrightarrow> table s' i = table s i)"
    by blast
qed

theorem new_journalId_witness:
  "activeJournal stashRowOnly = Some journalOne \<and>
   fst (new stashRowOnly (Many [''p'', ''q''])) = Inr [2, 3] \<and>
   table (snd (new stashRowOnly (Many [''p'', ''q'']))) 3 = Some (Sentence ''q'' 1) \<and>
   Sentence ''q'' 1 ''journalId'' = Num (id_journal journalOne) \<and>
   table (snd (new stashRowOnly (Many [''p'', ''q'']))) 1 = table stashRowOnly 1 \<and>
   activeJournal (stashRowOnly\<lparr>journals_active := None\<rparr>) = None \<and>
   new (stashRowOnly\<lparr>journals_active := None\<rparr>) (Many [''p'', ''q''])
     = (Inl ActiveJournalNotSet, stashRowOnly\<lparr>journals_active := None\<rparr>)"
proof -
  let ?r = "new stashRowOnly (Many [''p'', ''q''])"
  have h: "?r = (Inr [2, 3], snd ?r)"
    by (simp add: new_def activeJournal_def stashRowOnly_def journalOne_def bulkGet_def)
  have aj: "activeJournal stashRowOnly = Some journalOne"
    by (simp add: activeJournal_def stashRowOnly_def)
  have row3: "table (snd ?r) 3 = Some (Sentence ''q'' 1)"
    by (simp add: new_def activeJournal_def stashRowOnly_def journalOne_def bulkGet_def)
  have none: "activeJournal (stashRowOnly\<lparr>journals_active := None\<rparr>) = None"
    by (simp add: activeJournal_def)
  from new_journalId [of stashRowOnly "Many [''p'', ''q'']" "[2, 3]" "snd ?r"] h
  have "\<forall>i. i \<notin> set [2, 3 :: int] \<longrightarrow> table (snd ?r) i = table stashRowOnly i"
    by blast
  then have frame: "table (snd ?r) 1 = table stashRowOnly 1" by simp
  from new_journalId [of "stashRowOnly\<lparr>journals_active := None\<rparr>" "Many [''p'', ''q'']"] none
  have err: "new (stashRowOnly\<lparr>journals_active := None\<rparr>) (Many [''p'', ''q''])
              = (Inl ActiveJournalNotSet, stashRowOnly\<lparr>journals_active := None\<rparr>)"
    by blast
  from h have "fst ?r = Inr [2, 3]" by (metis fst_conv)
  with aj row3 frame none err show ?thesis
    by (simp add: journalOne_def)
qed

end
